theory Spec2Isabelle
  imports Main "HOL-Library.Word"
begin

unbundle bit_operations_syntax

section \<open>Machine types and faults\<close>

text \<open>
  The C types of \<^verbatim>\<open>map.c\<close>: a \<^verbatim>\<open>char\<close> is one byte, an \<^verbatim>\<open>int\<close> is 32 bits.
  \<^verbatim>\<open>char\<close> is signed (the source writes \<^verbatim>\<open>(char)-1\<close>), so the integer promotion of a
  byte sign-extends it; the conversion back to \<^verbatim>\<open>char\<close> keeps the low byte.
  Coordinates and the layer width are C \<^verbatim>\<open>int\<close>s that the source only adds and
  multiplies into an array index; they are integers here, and a sum or product that
  does not fit a C \<^verbatim>\<open>int\<close> (undefined in C) is the fault \<open>SignedOverflow\<close>. An
  index outside the array is a fault as well. The source's variable \<^verbatim>\<open>id\<close> is
  \<open>tid\<close> here.
\<close>

type_synonym cchar = "8 word"
type_synonym cint = "32 word"
type_synonym addr = nat

datatype fault =
    SignedOverflow int
  | OutOfBoundsRead int nat
  | OutOfBoundsWrite nat nat
  | DoubleFree addr

definition INT_MAX :: int where
  "INT_MAX = 2147483647"

definition INT_MIN :: int where
  "INT_MIN = - 2147483648"

definition fits_int :: "int \<Rightarrow> bool" where
  "fits_int i \<longleftrightarrow> INT_MIN \<le> i \<and> i \<le> INT_MAX"

definition int_of_char :: "cchar \<Rightarrow> cint" where
  "int_of_char c = scast c"

definition char_of_int :: "cint \<Rightarrow> cchar" where
  "char_of_int i = ucast i"

definition bool_of_int :: "cint \<Rightarrow> bool" where
  "bool_of_int i = (i \<noteq> 0)"

section \<open>Flip flags\<close>

text \<open>
  \<^verbatim>\<open>map.h\<close>, which defines the three flag macros, is not among the sources. The
  functions that use the macros take their values as a parameter \<open>macros\<close>, a record
  with one field per macro; a value is the bit pattern of a C \<^verbatim>\<open>int\<close> or
  \<^verbatim>\<open>unsigned int\<close>.
\<close>

record flag_macros =
  FLIPPED_HORIZONTALLY_FLAG :: cint
  FLIPPED_VERTICALLY_FLAG :: cint
  FLIPPED_DIAGONALLY_FLAG :: cint

text \<open>
  Modelled from the spec: the values of the flag macros of \<^verbatim>\<open>map.h\<close>. The spec
  (External interfaces) fixes the layout: ``integer ids are bytes; flag bits occupy the
  three most-significant bits of that byte'', and names the flags in the order
  horizontal, vertical, diagonal.
\<close>

definition byte_flags :: flag_macros where
  "byte_flags =
     \<lparr>FLIPPED_HORIZONTALLY_FLAG = 0x80,
      FLIPPED_VERTICALLY_FLAG = 0x40,
      FLIPPED_DIAGONALLY_FLAG = 0x20\<rparr>"

section \<open>Layers and tile lookup\<close>

text \<open>
  Modelled from the spec: the struct declarations of \<^verbatim>\<open>map.h\<close> are not among the
  sources. Each record below has the fields that \<^verbatim>\<open>map.c\<close> reads or frees, under the
  names the source uses, with the types of the spec's data model. A struct that lives in
  its own heap block carries the address of that block in a field \<open>_at\<close>; a pointer
  field to a string, a byte array or a bitmap appears as the address of the block it
  points to (\<open>None\<close> is \<^verbatim>\<open>NULL\<close>) and, where a query reads through it, as the
  contents of that block. A \<^verbatim>\<open>GSList\<close> of struct pointers is the list of the structs.

  \<^verbatim>\<open>TILED_MAP_LAYER\<close>: \<^verbatim>\<open>name\<close>, \<^verbatim>\<open>width\<close>, the height the caller's contract
  speaks of, and \<^verbatim>\<open>data\<close>, the flat byte array.
\<close>

record TILED_MAP_LAYER =
  layer_at :: addr
  layer_name_at :: "addr option"
  width :: int
  height :: int
  data_at :: "addr option"
  data :: "cchar list"

text \<open>
  \<^verbatim>\<open>lookup_tile\<close> reads \<^verbatim>\<open>layer->data[x+(y*layer->width)]\<close> with no check. A read
  outside the array is undefined in C; here it is the fault \<open>OutOfBoundsRead\<close>.
\<close>

definition lookup_tile :: "TILED_MAP_LAYER \<Rightarrow> int \<Rightarrow> int \<Rightarrow> fault + cchar" where
  "lookup_tile layer x y =
     (let p = y * width layer; i = x + p in
      if \<not> fits_int p then Inl (SignedOverflow p)
      else if \<not> fits_int i then Inl (SignedOverflow i)
      else if 0 \<le> i \<and> i < int (length (data layer))
      then Inr (data layer ! nat i)
      else Inl (OutOfBoundsRead i (length (data layer))))"

text \<open>
  \<^verbatim>\<open>al_get_single_tile\<close>: \<^verbatim>\<open>id &= ~(H|V|D)\<close>. The byte is promoted to \<^verbatim>\<open>int\<close>,
  and-ed with the complement of the three flags, and converted back to \<^verbatim>\<open>char\<close>.
\<close>

definition al_get_single_tile ::
  "flag_macros \<Rightarrow> TILED_MAP_LAYER \<Rightarrow> int \<Rightarrow> int \<Rightarrow> fault + cchar" where
  "al_get_single_tile macros layer x y =
     (case lookup_tile layer x y of
        Inl e \<Rightarrow> Inl e
      | Inr tid \<Rightarrow>
          Inr (char_of_int (int_of_char tid AND
                 NOT (FLIPPED_HORIZONTALLY_FLAG macros
                      OR FLIPPED_VERTICALLY_FLAG macros
                      OR FLIPPED_DIAGONALLY_FLAG macros))))"

text \<open>
  \<^verbatim>\<open>flipped_horizontally\<close> and \<^verbatim>\<open>flipped_vertically\<close> return the \<^verbatim>\<open>int\<close>
  \<^verbatim>\<open>lookup_tile(...) & FLAG\<close> as a \<^verbatim>\<open>bool\<close>: true when it is not zero.
\<close>

definition flipped_horizontally ::
  "flag_macros \<Rightarrow> TILED_MAP_LAYER \<Rightarrow> int \<Rightarrow> int \<Rightarrow> fault + bool" where
  "flipped_horizontally macros layer x y =
     (case lookup_tile layer x y of
        Inl e \<Rightarrow> Inl e
      | Inr c \<Rightarrow> Inr (bool_of_int (int_of_char c AND FLIPPED_HORIZONTALLY_FLAG macros)))"

definition flipped_vertically ::
  "flag_macros \<Rightarrow> TILED_MAP_LAYER \<Rightarrow> int \<Rightarrow> int \<Rightarrow> fault + bool" where
  "flipped_vertically macros layer x y =
     (case lookup_tile layer x y of
        Inl e \<Rightarrow> Inl e
      | Inr c \<Rightarrow> Inr (bool_of_int (int_of_char c AND FLIPPED_VERTICALLY_FLAG macros)))"

text \<open>
  The caller's contract of the spec: \<open>0 \<le> x < width\<close>, \<open>0 \<le> y < height\<close>, on a layer
  whose array has \<open>width * height\<close> cells, a number that is a C \<^verbatim>\<open>int\<close> like the two
  dimensions.
\<close>

definition in_bounds :: "TILED_MAP_LAYER \<Rightarrow> int \<Rightarrow> int \<Rightarrow> bool" where
  "in_bounds layer x y \<longleftrightarrow>
     0 \<le> x \<and> x < width layer \<and> 0 \<le> y \<and> y < height layer \<and>
     int (length (data layer)) = width layer * height layer \<and>
     width layer * height layer \<le> INT_MAX"

section \<open>Properties, tiles, objects\<close>

text \<open>
  Modelled from the spec: \<^verbatim>\<open>TILED_PROPERTY\<close>, \<^verbatim>\<open>TILED_MAP_TILE\<close> and
  \<^verbatim>\<open>TILED_OBJECT\<close> are declared in \<^verbatim>\<open>map.h\<close>. A property is a name and a value,
  both strings in blocks of their own; a tile has an ordered property list and a bitmap;
  an object has an ordered property list, a name and a type. The field \<^verbatim>\<open>value\<close> is
  \<open>val\<close> here.
\<close>

record TILED_PROPERTY =
  property_at :: addr
  name_at :: "addr option"
  name :: string
  value_at :: "addr option"
  val :: string

record TILED_MAP_TILE =
  tile_at :: addr
  tile_properties :: "TILED_PROPERTY list"
  tile_bitmap :: "addr option"

record TILED_OBJECT =
  object_at :: addr
  object_properties :: "TILED_PROPERTY list"
  object_name_at :: "addr option"
  object_type_at :: "addr option"

text \<open>
  \<^verbatim>\<open>al_get_tile_property\<close>: the \<^verbatim>\<open>while (properties)\<close> loop, then \<^verbatim>\<open>return def\<close>.
  A C string is the list of its characters before the terminating NUL, so
  \<^verbatim>\<open>!strcmp(a, b)\<close> is equality of the two strings; the result is the string that the
  returned pointer points to. The tile pointer may be \<^verbatim>\<open>NULL\<close>, which is \<open>None\<close>.
\<close>

fun tile_property_loop :: "TILED_PROPERTY list \<Rightarrow> string \<Rightarrow> string \<Rightarrow> string" where
  "tile_property_loop [] nm def = def"
| "tile_property_loop (prop # properties) nm def =
     (if name prop = nm then val prop
      else tile_property_loop properties nm def)"

definition al_get_tile_property :: "TILED_MAP_TILE option \<Rightarrow> string \<Rightarrow> string \<Rightarrow> string" where
  "al_get_tile_property tile nm def =
     (case tile of
        Some t \<Rightarrow> tile_property_loop (tile_properties t) nm def
      | None \<Rightarrow> def)"

text \<open>\<^verbatim>\<open>al_get_object_property\<close>: the source repeats the same loop for an object.\<close>

fun object_property_loop :: "TILED_PROPERTY list \<Rightarrow> string \<Rightarrow> string \<Rightarrow> string" where
  "object_property_loop [] nm def = def"
| "object_property_loop (prop # properties) nm def =
     (if name prop = nm then val prop
      else object_property_loop properties nm def)"

definition al_get_object_property :: "TILED_OBJECT option \<Rightarrow> string \<Rightarrow> string \<Rightarrow> string" where
  "al_get_object_property object nm def =
     (case object of
        Some ob \<Rightarrow> object_property_loop (object_properties ob) nm def
      | None \<Rightarrow> def)"

section \<open>The heap\<close>

text \<open>
  The teardown code only releases blocks. The heap is the set of live block addresses
  and the log of the addresses released so far, in order. Releasing an address that is
  not live (a second release of the same block) is the fault \<open>DoubleFree\<close>.
  \<^verbatim>\<open>al_free(NULL)\<close> and \<^verbatim>\<open>al_destroy_bitmap(NULL)\<close> do nothing.
\<close>

record heap =
  live :: "addr set"
  released :: "addr list"

type_synonym stmt = "heap \<Rightarrow> fault + heap"

definition release :: "addr \<Rightarrow> stmt" where
  "release a h =
     (if a \<in> live h
      then Inr (h\<lparr>live := live h - {a}, released := released h @ [a]\<rparr>)
      else Inl (DoubleFree a))"

definition al_free :: "addr option \<Rightarrow> stmt" where
  "al_free p h = (case p of None \<Rightarrow> Inr h | Some a \<Rightarrow> release a h)"

definition al_destroy_bitmap :: "addr option \<Rightarrow> stmt" where
  "al_destroy_bitmap p h = (case p of None \<Rightarrow> Inr h | Some a \<Rightarrow> release a h)"

text \<open>A block of statements runs them in order and stops at the first fault.\<close>

fun statements :: "stmt list \<Rightarrow> stmt" where
  "statements [] h = Inr h"
| "statements (s # ss) h =
     (case s h of Inl e \<Rightarrow> Inl e | Inr h' \<Rightarrow> statements ss h')"

text \<open>
  \<^verbatim>\<open>g_slist_free_full(list, free_func)\<close> calls \<^verbatim>\<open>free_func\<close> on the data of every
  node, in list order. The list nodes themselves belong to GLib's allocator and are not
  blocks of this heap.
\<close>

definition g_slist_free_full :: "'a list \<Rightarrow> ('a \<Rightarrow> stmt) \<Rightarrow> stmt" where
  "g_slist_free_full list free_func = statements (map free_func list)"

section \<open>The tile registry\<close>

text \<open>
  Modelled from the spec: the code that creates and fills the registry is not among the
  sources. The registry is a GLib hash table of (key, tile pointer) entries; a key is a
  tile id converted to a pointer-sized integer, and a tile pointer is the tile it points
  to, so an entry whose tile has the address of a tileset's tile is an alias of it.
  A GLib table has a reference count and an optional destroy function for its values,
  both fixed by the code that creates it. \<^verbatim>\<open>g_hash_table_unref\<close> drops one
  reference; when the last one is dropped, it calls the destroy function, if there is
  one, on every value, and releases the table's own block; otherwise the table stays.
  The spec's registry is the map's own non-owning index: one reference, no destroy
  function. Both are fields here, so that the teardown can be run on either kind.
\<close>

type_synonym gpointer = int

record GHashTable =
  table_at :: addr
  ref_count :: nat
  value_destroy_func :: "(TILED_MAP_TILE \<Rightarrow> stmt) option"
  entries :: "(gpointer \<times> TILED_MAP_TILE) list"

definition g_hash_table_lookup :: "GHashTable \<Rightarrow> gpointer \<Rightarrow> TILED_MAP_TILE option" where
  "g_hash_table_lookup hash_table key = map_of (entries hash_table) key"

definition g_hash_table_unref :: "GHashTable \<Rightarrow> stmt" where
  "g_hash_table_unref hash_table =
     (if ref_count hash_table = 1
      then statements
             [case value_destroy_func hash_table of
                None \<Rightarrow> Inr
              | Some destroy \<Rightarrow> statements (map (\<lambda>(k, v). destroy v) (entries hash_table)),
              release (table_at hash_table)]
      else Inr)"

section \<open>Tilesets, object groups, the map\<close>

text \<open>
  Modelled from the spec: \<^verbatim>\<open>TILED_MAP_TILESET\<close>, \<^verbatim>\<open>TILED_OBJECT_GROUP\<close> and
  \<^verbatim>\<open>TILED_MAP\<close> are declared in \<^verbatim>\<open>map.h\<close>. The fields are those the teardown
  frees and the queries read.
\<close>

record TILED_MAP_TILESET =
  tileset_at :: addr
  tileset_name_at :: "addr option"
  source_at :: "addr option"
  tileset_tiles :: "TILED_MAP_TILE list"
  tileset_bitmap :: "addr option"

record TILED_OBJECT_GROUP =
  group_at :: addr
  group_name_at :: "addr option"

record TILED_MAP =
  map_at :: addr
  orientation_at :: "addr option"
  tilesets :: "TILED_MAP_TILESET list"
  layers :: "TILED_MAP_LAYER list"
  objects :: "TILED_OBJECT list"
  object_groups :: "TILED_OBJECT_GROUP list"
  tiles :: GHashTable
  backbuffer :: "addr option"

text \<open>
  \<^verbatim>\<open>al_get_tile_for_id\<close>: \<^verbatim>\<open>(gpointer)id\<close> converts the signed byte to a
  pointer-sized integer.
\<close>

definition gpointer_of_char :: "cchar \<Rightarrow> gpointer" where
  "gpointer_of_char c = sint c"

definition al_get_tile_for_id :: "TILED_MAP \<Rightarrow> cchar \<Rightarrow> TILED_MAP_TILE option" where
  "al_get_tile_for_id m tid =
     (if tid = 0 then None
      else g_hash_table_lookup (tiles m) (gpointer_of_char tid))"

section \<open>Tiles of all layers\<close>

text \<open>
  \<^verbatim>\<open>malloc(n)\<close> gives a block of \<open>n\<close> bytes with no defined contents (\<open>None\<close>).
  A write \<^verbatim>\<open>tiles[i] = v\<close> outside the block is the fault \<open>OutOfBoundsWrite\<close>.
\<close>

type_synonym buffer = "cchar option list"

definition malloc :: "nat \<Rightarrow> buffer" where
  "malloc n = replicate n None"

definition store :: "buffer \<Rightarrow> nat \<Rightarrow> cchar \<Rightarrow> fault + buffer" where
  "store buf i v =
     (if i < length buf then Inr (buf[i := Some v])
      else Inl (OutOfBoundsWrite i (length buf)))"

text \<open>
  The \<^verbatim>\<open>while (layers)\<close> loop of \<^verbatim>\<open>al_get_tiles\<close>, with its counter \<open>i\<close>. The
  source's local variables \<^verbatim>\<open>layers\<close> and \<^verbatim>\<open>tiles\<close> are \<open>rest\<close> and \<open>buf\<close>
  here (the map's fields keep the names).
\<close>

fun al_get_tiles_loop ::
  "flag_macros \<Rightarrow> TILED_MAP_LAYER list \<Rightarrow> int \<Rightarrow> int \<Rightarrow> nat \<Rightarrow> buffer
   \<Rightarrow> fault + buffer" where
  "al_get_tiles_loop macros [] x y i buf = Inr buf"
| "al_get_tiles_loop macros (layer # rest) x y i buf =
     (case al_get_single_tile macros layer x y of
        Inl e \<Rightarrow> Inl e
      | Inr tid \<Rightarrow>
          (case store buf i tid of
             Inl e \<Rightarrow> Inl e
           | Inr buf' \<Rightarrow> al_get_tiles_loop macros rest x y (i + 1) buf'))"

definition sentinel :: cchar where
  "sentinel = - 1"

definition al_get_tiles :: "flag_macros \<Rightarrow> TILED_MAP \<Rightarrow> int \<Rightarrow> int \<Rightarrow> fault + buffer" where
  "al_get_tiles macros m x y =
     (let layer_count = length (layers m);
          buf = malloc layer_count
      in case store buf layer_count sentinel of
           Inl e \<Rightarrow> Inl e
         | Inr buf' \<Rightarrow> al_get_tiles_loop macros (layers m) x y 0 buf')"

section \<open>Teardown\<close>

text \<open>The static functions \<^verbatim>\<open>_al_free_*\<close> of the source, without the leading underscore.\<close>

definition al_free_property :: "TILED_PROPERTY \<Rightarrow> stmt" where
  "al_free_property prop =
     statements
       [al_free (name_at prop),
        al_free (value_at prop),
        al_free (Some (property_at prop))]"

definition al_free_tile :: "TILED_MAP_TILE \<Rightarrow> stmt" where
  "al_free_tile tile =
     statements
       [g_slist_free_full (tile_properties tile) al_free_property,
        al_destroy_bitmap (tile_bitmap tile),
        al_free (Some (tile_at tile))]"

definition al_free_tileset :: "TILED_MAP_TILESET \<Rightarrow> stmt" where
  "al_free_tileset tileset =
     statements
       [al_free (tileset_name_at tileset),
        al_free (source_at tileset),
        g_slist_free_full (tileset_tiles tileset) al_free_tile,
        al_destroy_bitmap (tileset_bitmap tileset),
        al_free (Some (tileset_at tileset))]"

definition al_free_layer :: "TILED_MAP_LAYER \<Rightarrow> stmt" where
  "al_free_layer layer =
     statements
       [al_free (layer_name_at layer),
        al_free (data_at layer),
        al_free (Some (layer_at layer))]"

definition al_free_object :: "TILED_OBJECT \<Rightarrow> stmt" where
  "al_free_object object =
     statements
       [g_slist_free_full (object_properties object) al_free_property,
        al_free (object_name_at object),
        al_free (object_type_at object),
        al_free (Some (object_at object))]"

definition al_free_object_group :: "TILED_OBJECT_GROUP \<Rightarrow> stmt" where
  "al_free_object_group grp =
     statements
       [al_free (group_name_at grp),
        al_free (Some (group_at grp))]"

definition al_free_map :: "TILED_MAP \<Rightarrow> stmt" where
  "al_free_map m =
     statements
       [al_free (orientation_at m),
        g_slist_free_full (tilesets m) al_free_tileset,
        g_slist_free_full (layers m) al_free_layer,
        g_slist_free_full (objects m) al_free_object,
        g_slist_free_full (object_groups m) al_free_object_group,
        g_hash_table_unref (tiles m),
        al_destroy_bitmap (backbuffer m),
        al_free (Some (map_at m))]"

section \<open>Ownership\<close>

text \<open>
  The blocks a struct owns, in the order the spec's teardown section lists them: the
  blocks of its owned parts, then its own block. The registry owns only its own table:
  the tiles it refers to are owned by their tilesets.
\<close>

definition block :: "addr option \<Rightarrow> addr list" where
  "block p = (case p of None \<Rightarrow> [] | Some a \<Rightarrow> [a])"

definition owned_property :: "TILED_PROPERTY \<Rightarrow> addr list" where
  "owned_property prop = block (name_at prop) @ block (value_at prop) @ [property_at prop]"

definition owned_tile :: "TILED_MAP_TILE \<Rightarrow> addr list" where
  "owned_tile tile =
     concat (map owned_property (tile_properties tile))
     @ block (tile_bitmap tile) @ [tile_at tile]"

definition owned_tileset :: "TILED_MAP_TILESET \<Rightarrow> addr list" where
  "owned_tileset tileset =
     block (tileset_name_at tileset) @ block (source_at tileset)
     @ concat (map owned_tile (tileset_tiles tileset))
     @ block (tileset_bitmap tileset) @ [tileset_at tileset]"

definition owned_layer :: "TILED_MAP_LAYER \<Rightarrow> addr list" where
  "owned_layer layer = block (layer_name_at layer) @ block (data_at layer) @ [layer_at layer]"

definition owned_object :: "TILED_OBJECT \<Rightarrow> addr list" where
  "owned_object object =
     concat (map owned_property (object_properties object))
     @ block (object_name_at object) @ block (object_type_at object) @ [object_at object]"

definition owned_object_group :: "TILED_OBJECT_GROUP \<Rightarrow> addr list" where
  "owned_object_group grp = block (group_name_at grp) @ [group_at grp]"

definition owned_map :: "TILED_MAP \<Rightarrow> addr list" where
  "owned_map m =
     block (orientation_at m)
     @ concat (map owned_tileset (tilesets m))
     @ concat (map owned_layer (layers m))
     @ concat (map owned_object (objects m))
     @ concat (map owned_object_group (object_groups m))
     @ [table_at (tiles m)]
     @ block (backbuffer m) @ [map_at m]"

text \<open>
  A statement releases a list of blocks when, on every heap where these blocks are live
  and pairwise distinct, it ends without a fault, the blocks are no longer live, and the
  log has grown by exactly this list.
\<close>

definition releases :: "stmt \<Rightarrow> addr list \<Rightarrow> bool" where
  "releases s as \<longleftrightarrow>
     (\<forall>h. distinct as \<and> set as \<subseteq> live h \<longrightarrow>
        s h = Inr (h\<lparr>live := live h - set as, released := released h @ as\<rparr>))"

section \<open>Grids\<close>

text \<open>
  Modelled from the spec: the code that builds a layer from a grid of ids is not among
  the sources. The spec's data model stores the grid row-major, \<open>index = x + y*width\<close>:
  the array is the rows of the grid one after the other, \<open>height\<close> rows of \<open>width\<close>
  cells. A stored byte is unflagged when none of the three flag bits is set in it.
\<close>

definition unflagged :: "flag_macros \<Rightarrow> cchar \<Rightarrow> bool" where
  "unflagged macros tid \<longleftrightarrow>
     int_of_char tid AND
       (FLIPPED_HORIZONTALLY_FLAG macros OR FLIPPED_VERTICALLY_FLAG macros
        OR FLIPPED_DIAGONALLY_FLAG macros) = 0"

definition row_major :: "TILED_MAP_LAYER \<Rightarrow> cchar list list \<Rightarrow> bool" where
  "row_major layer rows \<longleftrightarrow>
     0 \<le> width layer \<and> 0 \<le> height layer \<and>
     width layer * height layer \<le> INT_MAX \<and>
     length rows = nat (height layer) \<and>
     list_all (\<lambda>r. length r = nat (width layer)) rows \<and>
     data layer = concat rows"

section \<open>Example values\<close>

text \<open>
  A 2 by 2 layer with a plain cell, a cell with all three flags set, an empty cell and a
  cell with only the vertical flag set.
\<close>

definition example_layer :: TILED_MAP_LAYER where
  "example_layer =
     \<lparr>layer_at = 10, layer_name_at = Some 11, width = 2, height = 2,
      data_at = Some 12, data = [0x05, 0xE5, 0x00, 0x5F]\<rparr>"

text \<open>
  The spec's example: a tile whose property list names \<open>solid\<close> twice.
\<close>

definition solid_true :: TILED_PROPERTY where
  "solid_true = \<lparr>property_at = 20, name_at = Some 21, name = ''solid'',
                  value_at = Some 22, val = ''true''\<rparr>"

definition solid_false :: TILED_PROPERTY where
  "solid_false = \<lparr>property_at = 23, name_at = Some 24, name = ''solid'',
                   value_at = Some 25, val = ''false''\<rparr>"

definition example_tile :: TILED_MAP_TILE where
  "example_tile = \<lparr>tile_at = 30, tile_properties = [solid_true, solid_false],
                    tile_bitmap = Some 31\<rparr>"

definition example_object :: TILED_OBJECT where
  "example_object = \<lparr>object_at = 40, object_properties = [solid_true, solid_false],
                      object_name_at = Some 41, object_type_at = Some 42\<rparr>"

text \<open>
  A registry that has an entry under the reserved key 0, and a map that uses it.
\<close>

definition example_registry :: GHashTable where
  "example_registry =
     \<lparr>table_at = 50, ref_count = 1, value_destroy_func = None,
      entries = [(0, example_tile), (7, example_tile)]\<rparr>"

definition example_map :: TILED_MAP where
  "example_map =
     \<lparr>map_at = 60, orientation_at = Some 61, tilesets = [],
      layers = [example_layer], objects = [], object_groups = [],
      tiles = example_registry, backbuffer = Some 62\<rparr>"

text \<open>
  A 3 by 2 grid of unflagged ids and the layer that stores it.
\<close>

definition example_grid :: "cchar list list" where
  "example_grid = [[1, 2, 3], [4, 0, 31]]"

definition grid_layer :: TILED_MAP_LAYER where
  "grid_layer =
     \<lparr>layer_at = 70, layer_name_at = Some 71, width = 3, height = 2,
      data_at = Some 72, data = [1, 2, 3, 4, 0, 31]\<rparr>"

text \<open>
  The spec's teardown test: a map with two tilesets of one tile each, both tiles also
  reachable through the registry; a heap in which all its blocks (and one foreign block)
  are live; and the same map with a registry that would own its values.
\<close>

definition wall_tile :: TILED_MAP_TILE where
  "wall_tile = \<lparr>tile_at = 103, tile_properties = [solid_true], tile_bitmap = Some 104\<rparr>"

definition floor_tile :: TILED_MAP_TILE where
  "floor_tile = \<lparr>tile_at = 113, tile_properties = [], tile_bitmap = None\<rparr>"

definition two_tileset_map :: TILED_MAP where
  "two_tileset_map =
     \<lparr>map_at = 160, orientation_at = Some 100,
      tilesets =
        [\<lparr>tileset_at = 107, tileset_name_at = Some 101, source_at = Some 102,
          tileset_tiles = [wall_tile], tileset_bitmap = Some 105\<rparr>,
         \<lparr>tileset_at = 117, tileset_name_at = Some 111, source_at = None,
          tileset_tiles = [floor_tile], tileset_bitmap = Some 115\<rparr>],
      layers = [grid_layer],
      objects =
        [\<lparr>object_at = 133, object_properties = [solid_false],
          object_name_at = Some 131, object_type_at = Some 132\<rparr>],
      object_groups = [\<lparr>group_at = 141, group_name_at = Some 140\<rparr>],
      tiles =
        \<lparr>table_at = 150, ref_count = 1, value_destroy_func = None,
         entries = [(1, wall_tile), (2, floor_tile)]\<rparr>,
      backbuffer = Some 151\<rparr>"

definition two_tileset_heap :: heap where
  "two_tileset_heap =
     \<lparr>live = {20, 21, 22, 23, 24, 25, 70, 71, 72, 100, 101, 102, 103, 104, 105, 107,
              111, 113, 115, 117, 131, 132, 133, 140, 141, 150, 151, 160, 999},
      released = []\<rparr>"

definition owning_registry_map :: TILED_MAP where
  "owning_registry_map =
     two_tileset_map
       \<lparr>tiles := (tiles two_tileset_map)\<lparr>value_destroy_func := Some al_free_tile\<rparr>\<rparr>"

section \<open>Flag bits of a byte\<close>

text \<open>
  Testing one flag on the promoted byte is testing that bit of the byte.
\<close>

lemma flag_test_bit:
  assumes "k < 8"
  shows "bool_of_int (int_of_char c AND 2 ^ k) = bit c k"
proof
  assume "bool_of_int (int_of_char c AND 2 ^ k)"
  then have nz: "(scast c :: cint) AND 2 ^ k \<noteq> 0"
    by (simp add: bool_of_int_def int_of_char_def)
  have "\<exists>n. bit ((scast c :: cint) AND 2 ^ k) n"
  proof (rule ccontr)
    assume "\<not> (\<exists>n. bit ((scast c :: cint) AND 2 ^ k) n)"
    then have "(scast c :: cint) AND 2 ^ k = 0"
      by (intro bit_word_eqI) simp
    with nz show False by simp
  qed
  then show "bit c k"
    using assms by (auto simp add: bit_simps)
next
  assume "bit c k"
  then have "bit ((scast c :: cint) AND 2 ^ k) k"
    using assms by (auto simp add: bit_simps)
  then have "(scast c :: cint) AND 2 ^ k \<noteq> 0"
    by auto
  then show "bool_of_int (int_of_char c AND 2 ^ k)"
    by (simp add: bool_of_int_def int_of_char_def)
qed

lemma horizontal_flag_bit:
  "bool_of_int (int_of_char c AND FLIPPED_HORIZONTALLY_FLAG byte_flags) = bit c 7"
  using flag_test_bit [of 7 c] by (simp add: byte_flags_def)

lemma vertical_flag_bit:
  "bool_of_int (int_of_char c AND FLIPPED_VERTICALLY_FLAG byte_flags) = bit c 6"
  using flag_test_bit [of 6 c] by (simp add: byte_flags_def)

text \<open>
  Whatever the macros are, only their low byte reaches the result: promoting a byte,
  and-ing it with an \<^verbatim>\<open>int\<close> or with its complement and converting back is the same
  operation on the byte with the low byte of that \<^verbatim>\<open>int\<close>.
\<close>

lemma promoted_and_low_byte:
  "char_of_int (int_of_char c AND f) = c AND char_of_int f"
  unfolding char_of_int_def int_of_char_def
  by (rule bit_word_eqI) (auto simp add: bit_simps)

lemma promoted_and_not_low_byte:
  "char_of_int (int_of_char c AND NOT f) = c AND NOT (char_of_int f)"
  unfolding char_of_int_def int_of_char_def
  by (rule bit_word_eqI) (auto simp add: bit_simps)

lemma al_get_single_tile_any_macros:
  "lookup_tile layer x y = Inr raw \<Longrightarrow>
   al_get_single_tile macros layer x y =
     Inr (raw AND NOT (char_of_int (FLIPPED_HORIZONTALLY_FLAG macros
                                    OR FLIPPED_VERTICALLY_FLAG macros
                                    OR FLIPPED_DIAGONALLY_FLAG macros)))"
  unfolding al_get_single_tile_def promoted_and_not_low_byte by simp

text \<open>
  With the flags in the three high bits of the byte, the mask of
  \<^verbatim>\<open>al_get_single_tile\<close> keeps the low five bits of the byte.
\<close>

lemma mask_flags_byte:
  "char_of_int (int_of_char c AND
      NOT (FLIPPED_HORIZONTALLY_FLAG byte_flags
           OR FLIPPED_VERTICALLY_FLAG byte_flags
           OR FLIPPED_DIAGONALLY_FLAG byte_flags))
   = c AND 0x1F"
proof -
  have "c AND NOT (0xE0 :: cchar) = c AND 0x1F"
  proof (rule bit_word_eqI)
    fix n :: nat
    assume "n < LENGTH(8)"
    then have "n \<in> {0, 1, 2, 3, 4, 5, 6, 7}"
      by auto
    then show "bit (c AND NOT (0xE0 :: cchar)) n = bit (c AND 0x1F) n"
      by (auto simp add: bit_simps)
  qed
  then show ?thesis
    unfolding promoted_and_not_low_byte
    by (simp add: byte_flags_def char_of_int_def)
qed

lemma low_five_mask: "(0x1F :: cchar) = mask 5"
  by (simp add: mask_eq_exp_minus_1)

lemma bit_low_five: "bit (c AND (0x1F :: cchar)) n \<longleftrightarrow> bit c n \<and> n < 5"
  unfolding low_five_mask by (auto simp add: bit_simps)

lemma low_five_nonneg: "0 \<le> sint (c AND (0x1F :: cchar))"
  using bit_last_iff [of "c AND (0x1F :: cchar)"] bit_low_five [of c 7] by simp

lemma low_five_not_sentinel: "c AND (0x1F :: cchar) \<noteq> sentinel"
  using bit_low_five [of c 7] by (auto simp add: sentinel_def)

lemma unflagged_byte_flags: "unflagged byte_flags tid \<longleftrightarrow> tid AND 0xE0 = 0"
proof
  assume "unflagged byte_flags tid"
  then have "char_of_int (int_of_char tid AND 0xE0) = char_of_int 0"
    by (simp add: unflagged_def byte_flags_def)
  then show "tid AND 0xE0 = 0"
    unfolding promoted_and_low_byte by (simp add: char_of_int_def)
next
  assume z: "tid AND 0xE0 = 0"
  have e: "(0xE0 :: cint) = push_bit 5 (mask 3)"
    by (simp add: mask_eq_exp_minus_1)
  have f: "(0xE0 :: cchar) = push_bit 5 (mask 3)"
    by (simp add: mask_eq_exp_minus_1)
  have "\<not> bit (int_of_char tid AND 0xE0) n" for n
  proof
    assume "bit (int_of_char tid AND 0xE0) n"
    then have s: "bit (scast tid :: cint) n" and r: "5 \<le> n \<and> n - 5 < 3"
      unfolding e int_of_char_def by (auto simp add: bit_simps)
    from r have "n < 8"
      by arith
    with s have "bit tid n"
      by (simp add: bit_simps)
    with r \<open>n < 8\<close> have "bit (tid AND 0xE0) n"
      unfolding f by (simp add: bit_simps)
    with z show False
      by simp
  qed
  then have "int_of_char tid AND 0xE0 = 0"
    by (intro bit_word_eqI) simp
  then show "unflagged byte_flags tid"
    by (simp add: unflagged_def byte_flags_def)
qed

lemma unflagged_low_five: "unflagged byte_flags tid \<Longrightarrow> tid AND 0x1F = tid"
proof -
  assume "unflagged byte_flags tid"
  then have z: "tid AND 0xE0 = 0"
    by (simp add: unflagged_byte_flags)
  have e: "(0xE0 :: cchar) = push_bit 5 (mask 3)"
    by (simp add: mask_eq_exp_minus_1)
  have nb: "\<not> bit tid n" if "5 \<le> n" for n
  proof (cases "n < 8")
    case True
    have "\<not> bit (tid AND 0xE0) n"
      by (simp add: z)
    with True that show ?thesis
      unfolding e by (auto simp add: bit_simps)
  next
    case False
    then show ?thesis by (auto dest: bit_imp_le_length)
  qed
  show "tid AND 0x1F = tid"
  proof (rule bit_word_eqI)
    fix n :: nat
    show "bit (tid AND 0x1F) n = bit tid n"
      using nb [of n] by (cases "n < 5") (simp_all add: bit_low_five)
  qed
qed

section \<open>Reads inside the layer\<close>

lemma index_in_range:
  assumes "in_bounds layer x y"
  shows "0 \<le> x + y * width layer" and "x + y * width layer < int (length (data layer))"
    and "fits_int (y * width layer)" and "fits_int (x + y * width layer)"
proof -
  from assms have b: "0 \<le> x" "x < width layer" "0 \<le> y" "y < height layer"
    and len: "int (length (data layer)) = width layer * height layer"
    and fit: "width layer * height layer \<le> INT_MAX"
    by (simp_all add: in_bounds_def)
  from b have p: "0 \<le> y * width layer"
    by simp
  with b show i: "0 \<le> x + y * width layer"
    by simp
  have "x + y * width layer < width layer + y * width layer"
    using b by simp
  also have "\<dots> = (y + 1) * width layer"
    by (simp add: algebra_simps)
  also have "\<dots> \<le> height layer * width layer"
    using b by (intro mult_right_mono) simp_all
  finally have u: "x + y * width layer < width layer * height layer"
    by (simp add: mult.commute)
  then show "x + y * width layer < int (length (data layer))"
    by (simp add: len)
  from u fit i show "fits_int (x + y * width layer)"
    unfolding fits_int_def INT_MIN_def by linarith
  from u fit p b(1) show "fits_int (y * width layer)"
    unfolding fits_int_def INT_MIN_def by linarith
qed

lemma lookup_tile_in_bounds:
  "in_bounds layer x y \<Longrightarrow>
   lookup_tile layer x y = Inr (data layer ! nat (x + y * width layer))"
  using index_in_range [of layer x y] by (simp add: lookup_tile_def Let_def)

lemma al_get_single_tile_eq:
  "lookup_tile layer x y = Inr raw \<Longrightarrow> al_get_single_tile byte_flags layer x y = Inr (raw AND 0x1F)"
  unfolding al_get_single_tile_def mask_flags_byte by simp

section \<open>Tile lookup\<close>

text \<open>
  Claim C3. With the flags in the three high bits of the byte: for a position inside
  the layer, \<^verbatim>\<open>lookup_tile\<close> returns the stored byte, whatever its value, and
  \<^verbatim>\<open>al_get_single_tile\<close> returns that byte and-ed with \<open>0x1F\<close>: bits 5, 6 and 7 (the
  three flags) are cleared and every other bit is the stored one.
\<close>

theorem al_get_single_tile_clears_flag_bits:
  assumes "in_bounds layer x y"
  shows "\<exists>raw tid.
           lookup_tile layer x y = Inr raw \<and>
           raw = data layer ! nat (x + y * width layer) \<and>
           al_get_single_tile byte_flags layer x y = Inr tid \<and>
           tid = raw AND 0x1F \<and>
           (\<forall>n. bit tid n \<longleftrightarrow> bit raw n \<and> n \<notin> {5, 6, 7})"
proof -
  let ?raw = "data layer ! nat (x + y * width layer)"
  have l: "lookup_tile layer x y = Inr ?raw"
    using assms by (rule lookup_tile_in_bounds)
  have t: "al_get_single_tile byte_flags layer x y = Inr (?raw AND 0x1F)"
    using l by (rule al_get_single_tile_eq)
  have "bit (?raw AND 0x1F) n \<longleftrightarrow> bit ?raw n \<and> n \<notin> {5, 6, 7}" for n
  proof (cases "n < 8")
    case True
    then have "n \<in> {0, 1, 2, 3, 4, 5, 6, 7}" by auto
    then show ?thesis by (auto simp add: bit_low_five)
  next
    case False
    then have "\<not> bit ?raw n" by (auto dest: bit_imp_le_length)
    with False show ?thesis by (simp add: bit_low_five)
  qed
  with l t show ?thesis by blast
qed

theorem al_get_single_tile_clears_flag_bits_witness:
  "in_bounds example_layer 1 0 \<and>
   lookup_tile example_layer 1 0 = Inr 0xE5 \<and>
   al_get_single_tile byte_flags example_layer 1 0 = Inr 0x05"
  using al_get_single_tile_clears_flag_bits [of example_layer 1 0]
  by (simp add: in_bounds_def example_layer_def lookup_tile_def fits_int_def INT_MAX_def
      INT_MIN_def)

text \<open>
  Claim C4. With the flags in the three high bits of the byte, every id that
  \<^verbatim>\<open>al_get_single_tile\<close> returns is non-negative as a signed byte and differs from the
  sentinel \<^verbatim>\<open>(char)-1\<close> that \<^verbatim>\<open>al_get_tiles\<close> writes.
\<close>

theorem decoded_id_nonnegative_not_sentinel:
  assumes "al_get_single_tile byte_flags layer x y = Inr tid"
  shows "0 \<le> sint tid \<and> tid \<noteq> sentinel"
proof -
  from assms obtain raw where "tid = raw AND 0x1F"
    unfolding al_get_single_tile_def mask_flags_byte
    by (auto split: sum.splits)
  then show ?thesis
    by (simp add: low_five_nonneg low_five_not_sentinel)
qed

theorem decoded_id_nonnegative_not_sentinel_witness:
  "al_get_single_tile byte_flags example_layer 1 1 = Inr 0x1F \<and>
   0 \<le> sint (0x1F :: cchar) \<and> (0x1F :: cchar) \<noteq> sentinel"
proof -
  have e: "al_get_single_tile byte_flags example_layer 1 1 = Inr 0x1F"
    unfolding al_get_single_tile_def mask_flags_byte
    by (simp add: example_layer_def lookup_tile_def fits_int_def INT_MAX_def INT_MIN_def)
  from decoded_id_nonnegative_not_sentinel [OF e] e show ?thesis
    by simp
qed

text \<open>
  Claim C7. With the horizontal flag in bit 7 and the vertical flag in bit 6 of the
  byte: for a position inside the layer, \<^verbatim>\<open>flipped_horizontally\<close> is true exactly when
  bit 7 of the stored byte is set, and \<^verbatim>\<open>flipped_vertically\<close> exactly when bit 6 is
  set. Each result is a function of its own bit alone: two cells whose bytes agree on
  that bit give the same result, whatever their other flag bits and id bits are.
\<close>

theorem flip_tests_read_their_bit:
  assumes "in_bounds layer x y"
  shows "\<exists>raw.
           lookup_tile layer x y = Inr raw \<and>
           flipped_horizontally byte_flags layer x y = Inr (bit raw 7) \<and>
           flipped_vertically byte_flags layer x y = Inr (bit raw 6) \<and>
           (\<forall>layer' x' y' raw'.
              lookup_tile layer' x' y' = Inr raw' \<and> bit raw' 7 = bit raw 7 \<longrightarrow>
              flipped_horizontally byte_flags layer' x' y' =
              flipped_horizontally byte_flags layer x y) \<and>
           (\<forall>layer' x' y' raw'.
              lookup_tile layer' x' y' = Inr raw' \<and> bit raw' 6 = bit raw 6 \<longrightarrow>
              flipped_vertically byte_flags layer' x' y' =
              flipped_vertically byte_flags layer x y)"
  using lookup_tile_in_bounds [OF assms]
  by (simp add: flipped_horizontally_def flipped_vertically_def
      horizontal_flag_bit vertical_flag_bit)

theorem flip_tests_read_their_bit_witness:
  "in_bounds example_layer 1 1 \<and>
   lookup_tile example_layer 1 1 = Inr 0x5F \<and>
   flipped_horizontally byte_flags example_layer 1 1 = Inr False \<and>
   flipped_vertically byte_flags example_layer 1 1 = Inr True"
  using flip_tests_read_their_bit [of example_layer 1 1]
  by (simp add: in_bounds_def example_layer_def lookup_tile_def fits_int_def INT_MAX_def
      INT_MIN_def)

text \<open>
  Claim C10. With the flags in the three high bits of the byte: an id returned by
  \<^verbatim>\<open>al_get_single_tile\<close> has the three flag bits clear; masking it again returns it
  unchanged; and in any layer cell that stores it, the lookup returns it again and both
  flip tests are false.
\<close>

theorem decoded_id_is_flag_free:
  assumes "al_get_single_tile byte_flags layer x y = Inr tid"
  shows "\<not> bit tid 7 \<and> \<not> bit tid 6 \<and> \<not> bit tid 5 \<and>
         char_of_int (int_of_char tid AND
           NOT (FLIPPED_HORIZONTALLY_FLAG byte_flags OR FLIPPED_VERTICALLY_FLAG byte_flags
                OR FLIPPED_DIAGONALLY_FLAG byte_flags)) = tid \<and>
         (\<forall>layer' x' y'. lookup_tile layer' x' y' = Inr tid \<longrightarrow>
            al_get_single_tile byte_flags layer' x' y' = Inr tid \<and>
            flipped_horizontally byte_flags layer' x' y' = Inr False \<and>
            flipped_vertically byte_flags layer' x' y' = Inr False)"
proof -
  from assms obtain raw where tid: "tid = raw AND 0x1F"
    unfolding al_get_single_tile_def mask_flags_byte
    by (auto split: sum.splits)
  have bits: "\<not> bit tid 7" "\<not> bit tid 6" "\<not> bit tid 5"
    by (simp_all add: tid bit_low_five)
  have idem: "tid AND 0x1F = tid"
    by (simp add: tid and.assoc)
  show ?thesis
    unfolding mask_flags_byte
    using bits idem
    by (auto simp add: al_get_single_tile_eq flipped_horizontally_def
        flipped_vertically_def horizontal_flag_bit vertical_flag_bit)
qed

theorem decoded_id_is_flag_free_witness:
  "al_get_single_tile byte_flags example_layer 1 0 = Inr 0x05 \<and>
   lookup_tile example_layer 0 0 = Inr 0x05 \<and>
   al_get_single_tile byte_flags example_layer 0 0 = Inr 0x05 \<and>
   flipped_horizontally byte_flags example_layer 0 0 = Inr False \<and>
   flipped_vertically byte_flags example_layer 0 0 = Inr False"
proof -
  have e: "al_get_single_tile byte_flags example_layer 1 0 = Inr 0x05"
    unfolding al_get_single_tile_def mask_flags_byte
    by (simp add: example_layer_def lookup_tile_def fits_int_def INT_MAX_def INT_MIN_def)
  have l: "lookup_tile example_layer 0 0 = Inr 0x05"
    by (simp add: example_layer_def lookup_tile_def fits_int_def INT_MAX_def INT_MIN_def)
  from decoded_id_is_flag_free [OF e] l e show ?thesis
    by blast
qed

section \<open>Row-major grids\<close>

lemma concat_rows_nth:
  "\<forall>r \<in> set rows. length r = w \<Longrightarrow> y < length rows \<Longrightarrow> x < w \<Longrightarrow>
   concat rows ! (x + y * w) = rows ! y ! x"
proof (induction rows arbitrary: y)
  case Nil
  then show ?case by simp
next
  case (Cons r rows)
  show ?case
  proof (cases y)
    case 0
    with Cons.prems show ?thesis by (simp add: nth_append)
  next
    case (Suc y')
    with Cons.prems have "concat rows ! (x + y' * w) = rows ! y' ! x"
      by (intro Cons.IH) simp_all
    with Cons.prems Suc show ?thesis
      by (simp add: nth_append)
  qed
qed

lemma length_concat_rows:
  "\<forall>r \<in> set rows. length r = w \<Longrightarrow> length (concat rows) = w * length rows"
  by (induction rows) simp_all

lemma unflagged_examples:
  "unflagged byte_flags 0" "unflagged byte_flags 1" "unflagged byte_flags 2"
  "unflagged byte_flags 3" "unflagged byte_flags 4" "unflagged byte_flags 31"
  by (simp_all add: unflagged_byte_flags)

text \<open>
  Claim C8. If a layer stores a grid of unflagged ids row-major, then
  \<^verbatim>\<open>al_get_single_tile\<close> at every position \<open>0 \<le> x < width\<close>, \<open>0 \<le> y < height\<close>
  returns the id of the grid at row \<open>y\<close>, column \<open>x\<close> (flags in the three high bits
  of the byte).
\<close>

theorem al_get_single_tile_round_trip:
  assumes "row_major layer rows"
    and "\<forall>r \<in> set rows. \<forall>tid \<in> set r. unflagged byte_flags tid"
    and "0 \<le> x" and "x < width layer" and "0 \<le> y" and "y < height layer"
  shows "al_get_single_tile byte_flags layer x y = Inr (rows ! nat y ! nat x)"
proof -
  from assms(1) have len: "length rows = nat (height layer)"
    and row: "\<forall>r \<in> set rows. length r = nat (width layer)"
    and dat: "data layer = concat rows"
    and fit: "width layer * height layer \<le> INT_MAX"
    by (simp_all add: row_major_def list_all_iff)
  have "length (data layer) = nat (width layer) * nat (height layer)"
    using length_concat_rows [OF row] by (simp add: dat len)
  then have "int (length (data layer)) = width layer * height layer"
    using assms(3-6) by (simp add: nat_mult_distrib)
  then have ib: "in_bounds layer x y"
    using assms(3-6) fit by (simp add: in_bounds_def)
  have yl: "nat y < length rows" and xl: "nat x < nat (width layer)"
    using assms(3-6) by (simp_all add: len)
  have "nat (x + y * width layer) = nat x + nat y * nat (width layer)"
    using assms(3-6) by (simp add: nat_add_distrib nat_mult_distrib)
  then have cell: "data layer ! nat (x + y * width layer) = rows ! nat y ! nat x"
    using concat_rows_nth [OF row yl xl] by (simp add: dat)
  have "rows ! nat y \<in> set rows"
    using yl by simp
  moreover have "length (rows ! nat y) = nat (width layer)"
    using row yl by simp
  ultimately have "rows ! nat y ! nat x \<in> set (rows ! nat y)" and "rows ! nat y \<in> set rows"
    using xl by simp_all
  then have "unflagged byte_flags (rows ! nat y ! nat x)"
    using assms(2) by blast
  then have "rows ! nat y ! nat x AND 0x1F = rows ! nat y ! nat x"
    by (rule unflagged_low_five)
  with lookup_tile_in_bounds [OF ib] cell show ?thesis
    by (simp add: al_get_single_tile_eq)
qed

theorem al_get_single_tile_round_trip_witness:
  "row_major grid_layer example_grid \<and>
   (0 :: int) \<le> 2 \<and> 2 < width grid_layer \<and> (0 :: int) \<le> 1 \<and> 1 < height grid_layer \<and>
   al_get_single_tile byte_flags grid_layer 2 1 = Inr 31"
proof -
  have rm: "row_major grid_layer example_grid"
    by (simp add: row_major_def grid_layer_def example_grid_def INT_MAX_def)
  have uf: "\<forall>r \<in> set example_grid. \<forall>tid \<in> set r. unflagged byte_flags tid"
    by (simp add: example_grid_def unflagged_examples)
  have b: "(0 :: int) \<le> 2" "2 < width grid_layer" "(0 :: int) \<le> 1" "1 < height grid_layer"
    by (simp_all add: grid_layer_def)
  from al_get_single_tile_round_trip [OF rm uf b] rm b show ?thesis
    by (simp add: example_grid_def)
qed

section \<open>Tiles of all layers\<close>

text \<open>
  The sentinel is written before the loop, at index \<open>layer_count\<close> of a block of
  \<open>layer_count\<close> bytes: for every map, every position and any flag macros it is a
  write past the end of the block.
\<close>

lemma al_get_tiles_sentinel_write:
  "al_get_tiles macros m x y =
     Inl (OutOfBoundsWrite (length (layers m)) (length (layers m)))"
  by (simp add: al_get_tiles_def store_def malloc_def Let_def)

text \<open>
  Claim C1. The claim asks for a sequence of \<open>layer_count + 1\<close> bytes with every write
  inside it. On a map with one layer, \<^verbatim>\<open>al_get_tiles\<close> allocates one byte and writes
  the sentinel at index 1.
\<close>

theorem al_get_tiles_writes_past_block:
  "al_get_tiles byte_flags example_map 0 0 = Inl (OutOfBoundsWrite 1 1)"
  by (simp add: al_get_tiles_sentinel_write example_map_def)

text \<open>
  The loop itself is sound: started at index \<open>i\<close> in a block with room for one byte
  per layer, it writes the decoded id of each layer, in list order, and nothing else.
\<close>

lemma al_get_tiles_loop_fills:
  "\<forall>layer \<in> set ls. in_bounds layer x y \<Longrightarrow> i + length ls \<le> length buf \<Longrightarrow>
   al_get_tiles_loop byte_flags ls x y i buf =
     Inr (take i buf
          @ map (\<lambda>layer. Some (data layer ! nat (x + y * width layer) AND 0x1F)) ls
          @ drop (i + length ls) buf)"
proof (induction ls arbitrary: i buf)
  case Nil
  then show ?case by simp
next
  case (Cons layer ls)
  let ?v = "data layer ! nat (x + y * width layer) AND 0x1F"
  have t: "al_get_single_tile byte_flags layer x y = Inr ?v"
    using Cons.prems(1) by (simp add: lookup_tile_in_bounds al_get_single_tile_eq)
  have i: "i < length buf"
    using Cons.prems(2) by simp
  then have s: "store buf i ?v = Inr (buf[i := Some ?v])"
    by (simp add: store_def)
  have "al_get_tiles_loop byte_flags ls x y (i + 1) (buf[i := Some ?v]) =
     Inr (take (i + 1) (buf[i := Some ?v])
          @ map (\<lambda>layer. Some (data layer ! nat (x + y * width layer) AND 0x1F)) ls
          @ drop (i + 1 + length ls) (buf[i := Some ?v]))"
    using Cons.prems by (intro Cons.IH) simp_all
  moreover have "take (i + 1) (buf[i := Some ?v]) = take i buf @ [Some ?v]"
    using i by (simp add: take_Suc_conv_app_nth)
  moreover have "drop (i + 1 + length ls) (buf[i := Some ?v]) = drop (i + length (layer # ls)) buf"
    by simp
  ultimately show ?case
    using t s by simp
qed

section \<open>Properties\<close>

lemma tile_property_loop_find:
  "tile_property_loop ps nm def =
     (case find (\<lambda>p. name p = nm) ps of Some p \<Rightarrow> val p | None \<Rightarrow> def)"
  by (induction ps) simp_all

lemma tile_property_loop_first:
  "\<forall>q \<in> set pre. name q \<noteq> nm \<Longrightarrow> name p = nm \<Longrightarrow>
   tile_property_loop (pre @ p # post) nm def = val p"
  by (induction pre) simp_all

lemma tile_property_loop_none:
  "\<forall>q \<in> set ps. name q \<noteq> nm \<Longrightarrow> tile_property_loop ps nm def = def"
  by (induction ps) simp_all

lemma property_scans_agree:
  "tile_property_loop ps nm def = object_property_loop ps nm def"
  by (induction ps) simp_all

text \<open>
  Claim C5. On a \<^verbatim>\<open>NULL\<close> tile \<^verbatim>\<open>al_get_tile_property\<close> returns the default. On a
  tile it returns the value of the first property of the list whose name is the queried
  name: properties before it with other names are skipped, later ones with the same name
  are not looked at. It returns the default when no property has that name.
\<close>

theorem al_get_tile_property_first_match:
  "al_get_tile_property None nm def = def \<and>
   al_get_tile_property (Some t) nm def =
     (case find (\<lambda>p. name p = nm) (tile_properties t) of
        Some p \<Rightarrow> val p | None \<Rightarrow> def) \<and>
   (\<forall>pre p post.
      tile_properties t = pre @ p # post \<and> name p = nm \<and> (\<forall>q \<in> set pre. name q \<noteq> nm)
      \<longrightarrow> al_get_tile_property (Some t) nm def = val p) \<and>
   ((\<forall>q \<in> set (tile_properties t). name q \<noteq> nm)
      \<longrightarrow> al_get_tile_property (Some t) nm def = def)"
  by (simp add: al_get_tile_property_def tile_property_loop_find [symmetric]
      tile_property_loop_first tile_property_loop_none)

theorem al_get_tile_property_first_match_witness:
  "tile_properties example_tile = [] @ solid_true # [solid_false] \<and>
   name solid_true = ''solid'' \<and>
   al_get_tile_property (Some example_tile) ''solid'' ''none'' = ''true'' \<and>
   al_get_tile_property (Some example_tile) ''water'' ''none'' = ''none''"
  using al_get_tile_property_first_match [of "''solid''" "''none''" example_tile]
    al_get_tile_property_first_match [of "''water''" "''none''" example_tile]
  by (simp add: example_tile_def solid_true_def solid_false_def)

text \<open>
  Claim C9. \<^verbatim>\<open>al_get_tile_property\<close> and \<^verbatim>\<open>al_get_object_property\<close> return the
  same result on a tile and an object that carry the same property list, and both
  return the default on \<^verbatim>\<open>NULL\<close>.
\<close>

theorem tile_and_object_property_agree:
  "al_get_tile_property None nm def = al_get_object_property None nm def \<and>
   (tile_properties t = object_properties ob \<longrightarrow>
      al_get_tile_property (Some t) nm def = al_get_object_property (Some ob) nm def)"
  by (simp add: al_get_tile_property_def al_get_object_property_def property_scans_agree)

theorem tile_and_object_property_agree_witness:
  "tile_properties example_tile = object_properties example_object \<and>
   al_get_tile_property (Some example_tile) ''solid'' ''none'' = ''true'' \<and>
   al_get_object_property (Some example_object) ''solid'' ''none'' = ''true''"
  using tile_and_object_property_agree [of "''solid''" "''none''" example_tile example_object]
  by (simp add: example_tile_def example_object_def solid_true_def solid_false_def
      al_get_object_property_def)

section \<open>Registry lookup\<close>

text \<open>
  Claim C6. \<^verbatim>\<open>al_get_tile_for_id\<close> returns \<^verbatim>\<open>NULL\<close> for id 0 on every map, also
  when the table has an entry under key 0; for any other id it returns what the table
  lookup returns for that id, which is \<^verbatim>\<open>NULL\<close> when the id is not a key of the table.
\<close>

theorem al_get_tile_for_id_lookup:
  "al_get_tile_for_id m 0 = None \<and>
   (tid \<noteq> 0 \<longrightarrow>
      al_get_tile_for_id m tid = g_hash_table_lookup (tiles m) (gpointer_of_char tid)) \<and>
   (tid \<noteq> 0 \<and> gpointer_of_char tid \<notin> fst ` set (entries (tiles m)) \<longrightarrow>
      al_get_tile_for_id m tid = None)"
  by (auto simp add: al_get_tile_for_id_def g_hash_table_lookup_def map_of_eq_None_iff)

theorem al_get_tile_for_id_lookup_witness:
  "g_hash_table_lookup (tiles example_map) 0 = Some example_tile \<and>
   al_get_tile_for_id example_map 0 = None \<and>
   (7 :: cchar) \<noteq> 0 \<and>
   al_get_tile_for_id example_map 7 = Some example_tile \<and>
   (9 :: cchar) \<noteq> 0 \<and>
   gpointer_of_char 9 \<notin> fst ` set (entries (tiles example_map)) \<and>
   al_get_tile_for_id example_map 9 = None"
  using al_get_tile_for_id_lookup [of example_map 7]
    al_get_tile_for_id_lookup [of example_map 9]
  by (simp add: example_map_def example_registry_def g_hash_table_lookup_def
      gpointer_of_char_def)

section \<open>Teardown\<close>

lemma releases_release: "releases (release a) [a]"
  by (simp add: releases_def release_def)

lemma releases_skip: "releases Inr []"
  by (simp add: releases_def)

lemma releases_al_free: "releases (al_free p) (block p)"
  by (cases p) (simp_all add: releases_def al_free_def block_def release_def fun_eq_iff)

lemma releases_al_destroy_bitmap: "releases (al_destroy_bitmap p) (block p)"
  by (cases p) (simp_all add: releases_def al_destroy_bitmap_def block_def release_def)

text \<open>
  A block of statements releases the concatenation of what its statements release.
\<close>

lemma releases_statements:
  "list_all2 releases ss ass \<Longrightarrow> releases (statements ss) (concat ass)"
proof (induction rule: list_all2_induct)
  case Nil
  then show ?case by (simp add: releases_def)
next
  case (Cons s ss as ass)
  show ?case
    unfolding releases_def
  proof (intro allI impI)
    fix h :: heap
    assume a: "distinct (concat (as # ass)) \<and> set (concat (as # ass)) \<subseteq> live h"
    then have d1: "distinct as" and s1: "set as \<subseteq> live h"
      and d2: "distinct (concat ass)" and dj: "set as \<inter> set (concat ass) = {}"
      and s2: "set (concat ass) \<subseteq> live h"
      by auto
    let ?h1 = "h\<lparr>live := live h - set as, released := released h @ as\<rparr>"
    from Cons.hyps(1) d1 s1 have step: "s h = Inr ?h1"
      by (simp add: releases_def)
    have "set (concat ass) \<subseteq> live ?h1"
      using s2 dj by auto
    with Cons.IH d2 have
      "statements ss ?h1 =
         Inr (?h1\<lparr>live := live ?h1 - set (concat ass),
                   released := released ?h1 @ concat ass\<rparr>)"
      unfolding releases_def by blast
    moreover have "live h - set as - set (concat ass) = live h - set (concat (as # ass))"
      by auto
    ultimately show
      "statements (s # ss) h =
         Inr (h\<lparr>live := live h - set (concat (as # ass)),
                 released := released h @ concat (as # ass)\<rparr>)"
      using step by simp
  qed
qed

lemma statements_append:
  "statements (ss @ ts) h =
     (case statements ss h of Inl e \<Rightarrow> Inl e | Inr h' \<Rightarrow> statements ts h')"
  by (induction ss arbitrary: h) (simp_all split: sum.splits)

lemma releases_g_slist_free_full:
  "(\<And>x. x \<in> set xs \<Longrightarrow> releases (free_func x) (owned x)) \<Longrightarrow>
   releases (g_slist_free_full xs free_func) (concat (map owned xs))"
  unfolding g_slist_free_full_def
  by (rule releases_statements) (simp add: list_all2_map1 list_all2_map2 list_all2_same)

text \<open>
  Each free function releases the blocks its struct owns.
\<close>

lemma releases_al_free_property: "releases (al_free_property prop) (owned_property prop)"
proof -
  have "releases (al_free_property prop)
          (concat [block (name_at prop), block (value_at prop), block (Some (property_at prop))])"
    unfolding al_free_property_def
    by (rule releases_statements) (simp add: releases_al_free)
  then show ?thesis
    by (simp add: owned_property_def block_def)
qed

lemma releases_al_free_tile: "releases (al_free_tile tile) (owned_tile tile)"
proof -
  have "releases (al_free_tile tile)
          (concat [concat (map owned_property (tile_properties tile)),
                   block (tile_bitmap tile), block (Some (tile_at tile))])"
    unfolding al_free_tile_def
    by (rule releases_statements)
      (simp add: releases_al_free releases_al_destroy_bitmap
        releases_g_slist_free_full releases_al_free_property)
  then show ?thesis
    by (simp add: owned_tile_def block_def)
qed

lemma releases_al_free_tileset: "releases (al_free_tileset tileset) (owned_tileset tileset)"
proof -
  have "releases (al_free_tileset tileset)
          (concat [block (tileset_name_at tileset), block (source_at tileset),
                   concat (map owned_tile (tileset_tiles tileset)),
                   block (tileset_bitmap tileset), block (Some (tileset_at tileset))])"
    unfolding al_free_tileset_def
    by (rule releases_statements)
      (simp add: releases_al_free releases_al_destroy_bitmap
        releases_g_slist_free_full releases_al_free_tile)
  then show ?thesis
    by (simp add: owned_tileset_def block_def)
qed

lemma releases_al_free_layer: "releases (al_free_layer layer) (owned_layer layer)"
proof -
  have "releases (al_free_layer layer)
          (concat [block (layer_name_at layer), block (data_at layer),
                   block (Some (layer_at layer))])"
    unfolding al_free_layer_def
    by (rule releases_statements) (simp add: releases_al_free)
  then show ?thesis
    by (simp add: owned_layer_def block_def)
qed

lemma releases_al_free_object: "releases (al_free_object object) (owned_object object)"
proof -
  have "releases (al_free_object object)
          (concat [concat (map owned_property (object_properties object)),
                   block (object_name_at object), block (object_type_at object),
                   block (Some (object_at object))])"
    unfolding al_free_object_def
    by (rule releases_statements)
      (simp add: releases_al_free releases_g_slist_free_full releases_al_free_property)
  then show ?thesis
    by (simp add: owned_object_def block_def)
qed

lemma releases_al_free_object_group:
  "releases (al_free_object_group grp) (owned_object_group grp)"
proof -
  have "releases (al_free_object_group grp)
          (concat [block (group_name_at grp), block (Some (group_at grp))])"
    unfolding al_free_object_group_def
    by (rule releases_statements) (simp add: releases_al_free)
  then show ?thesis
    by (simp add: owned_object_group_def block_def)
qed

text \<open>
  Dropping the last reference of a table without a value destroy function releases the
  table's block and no tile.
\<close>

lemma releases_g_hash_table_unref:
  assumes "ref_count hash_table = 1" and "value_destroy_func hash_table = None"
  shows "releases (g_hash_table_unref hash_table) [table_at hash_table]"
proof -
  have "releases (statements [Inr, release (table_at hash_table)])
          (concat [[], [table_at hash_table]])"
    by (rule releases_statements) (simp add: releases_skip releases_release)
  then show ?thesis
    using assms by (simp add: g_hash_table_unref_def)
qed

lemma releases_al_free_map:
  assumes "ref_count (tiles m) = 1" and "value_destroy_func (tiles m) = None"
  shows "releases (al_free_map m) (owned_map m)"
proof -
  have "releases (al_free_map m)
          (concat [block (orientation_at m),
                   concat (map owned_tileset (tilesets m)),
                   concat (map owned_layer (layers m)),
                   concat (map owned_object (objects m)),
                   concat (map owned_object_group (object_groups m)),
                   [table_at (tiles m)],
                   block (backbuffer m), block (Some (map_at m))])"
    unfolding al_free_map_def
    by (rule releases_statements)
      (simp add: releases_al_free releases_al_destroy_bitmap releases_g_slist_free_full
        releases_al_free_tileset releases_al_free_layer releases_al_free_object
        releases_al_free_object_group releases_g_hash_table_unref [OF assms])
  then show ?thesis
    by (simp add: owned_map_def block_def)
qed

lemma count_list_distinct:
  "distinct xs \<Longrightarrow> count_list xs a = (if a \<in> set xs then 1 else 0)"
  by (induction xs) auto

lemma tile_at_owned_tile: "tile_at tile \<in> set (owned_tile tile)"
  by (simp add: owned_tile_def)

lemma tile_at_owned_map:
  "tileset \<in> set (tilesets m) \<Longrightarrow> tile \<in> set (tileset_tiles tileset) \<Longrightarrow>
   tile_at tile \<in> set (owned_map m)"
  using tile_at_owned_tile [of tile]
  by (auto simp add: owned_map_def owned_tileset_def)

text \<open>
  Claim C2. Let the blocks the map owns be pairwise distinct and live, and let the
  registry be the map's own (one reference) non-owning index (no value destroy
  function). Then \<^verbatim>\<open>al_free_map\<close> ends without a fault; exactly the owned blocks stop
  being live; the log grows by the owned blocks, each of them once; the block of every
  tile of every tileset is released once; and no tile that the registry refers to is
  released more than once.
\<close>

theorem al_free_map_releases_each_block_once:
  assumes "distinct (owned_map m)" and "set (owned_map m) \<subseteq> live h"
    and "ref_count (tiles m) = 1" and "value_destroy_func (tiles m) = None"
  shows "\<exists>h'. al_free_map m h = Inr h' \<and>
           live h' = live h - set (owned_map m) \<and>
           released h' = released h @ owned_map m \<and>
           (\<forall>a \<in> set (owned_map m). count_list (owned_map m) a = 1) \<and>
           (\<forall>tileset \<in> set (tilesets m). \<forall>tile \<in> set (tileset_tiles tileset).
              count_list (owned_map m) (tile_at tile) = 1) \<and>
           (\<forall>(key, tile) \<in> set (entries (tiles m)).
              count_list (owned_map m) (tile_at tile) \<le> 1)"
proof -
  have "releases (al_free_map m) (owned_map m)"
    using assms(3,4) by (rule releases_al_free_map)
  with assms(1,2) have
    "al_free_map m h =
       Inr (h\<lparr>live := live h - set (owned_map m), released := released h @ owned_map m\<rparr>)"
    unfolding releases_def by blast
  moreover have "count_list (owned_map m) a = (if a \<in> set (owned_map m) then 1 else 0)" for a
    using assms(1) by (rule count_list_distinct)
  ultimately show ?thesis
    by (auto simp add: tile_at_owned_map)
qed

theorem al_free_map_releases_each_block_once_witness:
  "distinct (owned_map two_tileset_map) \<and>
   set (owned_map two_tileset_map) \<subseteq> live two_tileset_heap \<and>
   ref_count (tiles two_tileset_map) = 1 \<and>
   value_destroy_func (tiles two_tileset_map) = None \<and>
   map (tile_at \<circ> snd) (entries (tiles two_tileset_map)) = [103, 113] \<and>
   al_free_map two_tileset_map two_tileset_heap =
     Inr \<lparr>live = {999},
          released = [100, 101, 102, 21, 22, 20, 104, 103, 105, 107, 111, 113, 115, 117,
                      71, 72, 70, 24, 25, 23, 131, 132, 133, 140, 141, 150, 151, 160]\<rparr>"
proof -
  have o: "owned_map two_tileset_map =
      [100, 101, 102, 21, 22, 20, 104, 103, 105, 107, 111, 113, 115, 117,
       71, 72, 70, 24, 25, 23, 131, 132, 133, 140, 141, 150, 151, 160]"
    by (simp add: owned_map_def two_tileset_map_def owned_tileset_def owned_tile_def
        owned_property_def owned_layer_def owned_object_def owned_object_group_def block_def
        wall_tile_def floor_tile_def solid_true_def solid_false_def grid_layer_def)
  have d: "distinct (owned_map two_tileset_map)"
    unfolding o by simp
  have s: "set (owned_map two_tileset_map) \<subseteq> live two_tileset_heap"
    unfolding o by (simp add: two_tileset_heap_def)
  have r: "ref_count (tiles two_tileset_map) = 1"
    and v: "value_destroy_func (tiles two_tileset_map) = None"
    and e: "map (tile_at \<circ> snd) (entries (tiles two_tileset_map)) = [103, 113]"
    by (simp_all add: two_tileset_map_def wall_tile_def floor_tile_def)
  have l: "live two_tileset_heap - set (owned_map two_tileset_map) = {999}"
    unfolding o by (simp add: two_tileset_heap_def)
  from al_free_map_releases_each_block_once [OF d s r v]
  obtain h' where f: "al_free_map two_tileset_map two_tileset_heap = Inr h'"
    and lv: "live h' = live two_tileset_heap - set (owned_map two_tileset_map)"
    and rl: "released h' = released two_tileset_heap @ owned_map two_tileset_map"
    by blast
  have n: "released two_tileset_heap = []"
    by (simp add: two_tileset_heap_def)
  have "h' = \<lparr>live = {999}, released = owned_map two_tileset_map\<rparr>"
    by (rule heap.equality) (simp_all add: lv rl l n)
  with f have "al_free_map two_tileset_map two_tileset_heap =
     Inr \<lparr>live = {999}, released = owned_map two_tileset_map\<rparr>"
    by simp
  with d s r v e show ?thesis
    unfolding o by simp
qed

text \<open>
  Were the registry to own its values (a table created with \<^verbatim>\<open>al_free_tile\<close> as its
  value destroy function), the same teardown of the same map would release a block of
  the first tile a second time.
\<close>

lemma owning_registry_double_free:
  "al_free_map owning_registry_map two_tileset_heap = Inl (DoubleFree 21)"
proof -
  let ?m = owning_registry_map
  let ?before =
    "[al_free (orientation_at ?m),
      g_slist_free_full (tilesets ?m) al_free_tileset,
      g_slist_free_full (layers ?m) al_free_layer,
      g_slist_free_full (objects ?m) al_free_object,
      g_slist_free_full (object_groups ?m) al_free_object_group]"
  let ?owned =
    "[block (orientation_at ?m),
      concat (map owned_tileset (tilesets ?m)),
      concat (map owned_layer (layers ?m)),
      concat (map owned_object (objects ?m)),
      concat (map owned_object_group (object_groups ?m))]"
  let ?h1 = "\<lparr>live = {150, 151, 160, 999},
              released = [100, 101, 102, 21, 22, 20, 104, 103, 105, 107, 111, 113, 115,
                          117, 71, 72, 70, 24, 25, 23, 131, 132, 133, 140, 141]\<rparr>"
  have o: "concat ?owned =
      [100, 101, 102, 21, 22, 20, 104, 103, 105, 107, 111, 113, 115, 117,
       71, 72, 70, 24, 25, 23, 131, 132, 133, 140, 141]"
    by (simp add: owning_registry_map_def two_tileset_map_def owned_tileset_def
        owned_tile_def owned_property_def owned_layer_def owned_object_def
        owned_object_group_def block_def wall_tile_def floor_tile_def solid_true_def
        solid_false_def grid_layer_def)
  have "releases (statements ?before) (concat ?owned)"
    by (rule releases_statements)
      (simp add: releases_al_free releases_g_slist_free_full releases_al_free_tileset
        releases_al_free_layer releases_al_free_object releases_al_free_object_group)
  moreover have "distinct (concat ?owned)"
    unfolding o by simp
  moreover have "set (concat ?owned) \<subseteq> live two_tileset_heap"
    unfolding o by (simp add: two_tileset_heap_def)
  ultimately have
    "statements ?before two_tileset_heap =
       Inr (two_tileset_heap\<lparr>live := live two_tileset_heap - set (concat ?owned),
              released := released two_tileset_heap @ concat ?owned\<rparr>)"
    unfolding releases_def by blast
  moreover have "live two_tileset_heap - set (concat ?owned) = {150, 151, 160, 999}"
    unfolding o by (simp add: two_tileset_heap_def)
  ultimately have before: "statements ?before two_tileset_heap = Inr ?h1"
    unfolding o by (simp add: two_tileset_heap_def)
  have unref: "g_hash_table_unref (tiles ?m) ?h1 = Inl (DoubleFree 21)"
    by (simp add: owning_registry_map_def two_tileset_map_def g_hash_table_unref_def
        al_free_tile_def g_slist_free_full_def al_free_property_def al_free_def
        release_def wall_tile_def solid_true_def)
  let ?after =
    "[g_hash_table_unref (tiles ?m), al_destroy_bitmap (backbuffer ?m),
      al_free (Some (map_at ?m))]"
  have "al_free_map ?m = statements (?before @ ?after)"
    by (simp add: al_free_map_def)
  then have "al_free_map ?m two_tileset_heap =
      (case statements ?before two_tileset_heap of
         Inl e \<Rightarrow> Inl e | Inr h' \<Rightarrow> statements ?after h')"
    by (simp only: statements_append)
  also have "\<dots> = statements ?after ?h1"
    by (simp only: before sum.case)
  also have "\<dots> = Inl (DoubleFree 21)"
    by (simp only: statements.simps unref sum.case)
  finally show ?thesis .
qed

end
